theory Spec2Isabelle
  imports Complex_Main
begin

section \<open>Data model\<close>

text \<open>
  The embedding follows \<^verbatim>\<open>src/models/user.model.js\<close>,
  \<^verbatim>\<open>src/services/payment.service.js\<close>,
  \<^verbatim>\<open>src/api/controllers/auth.controller.js\<close> and
  \<^verbatim>\<open>src/api/middlewares/auth.middleware.js\<close>.
  Documents are records, collections are lists in natural order (\<^verbatim>\<open>findOne\<close> returns
  the first match), dates are milliseconds since the epoch, and every \<^verbatim>\<open>await x.save()\<close>
  takes its outcome from the environment: a write either succeeds or throws.
  Fields of the user schema that no operation below reads or writes (avatar, preferences,
  recipe lists, points) are left out. Logging is not modelled.
\<close>

type_synonym object_id = nat
type_synonym time = int

text \<open>The nested path \<^verbatim>\<open>subscription\<close> of the user schema; its \<^verbatim>\<open>status\<close> is a
  string that the schema restricts to \<^verbatim>\<open>free\<close>, \<^verbatim>\<open>premium\<close>, \<^verbatim>\<open>cancelled\<close>.\<close>

record subscription_snapshot =
  status :: string
  plan :: "string option"
  startDate :: "time option"
  endDate :: "time option"
  paymentMethod :: "string option"
  autoRenew :: bool

record user =
  uid :: object_id
  name :: string
  email :: string
  phone :: "string option"
  password :: "string option"
  role :: string
  subscription :: subscription_snapshot
  emailVerified :: bool
  emailVerificationToken :: "string option"
  emailVerificationExpire :: "time option"
  lastActive :: time
  isActive :: bool

definition status_enum :: "string list" where
  "status_enum = [''free'', ''premium'', ''cancelled'']"

text \<open>A document of the \<^verbatim>\<open>Subscription\<close> collection (the ledger), with the fields that
  \<^verbatim>\<open>payment.service.js\<close> reads and writes. Fields whose names the user schema also has
  carry the prefix \<^verbatim>\<open>ledger_\<close>.\<close>

record ledger =
  ledger_id :: object_id
  ledger_user :: object_id
  planId :: string
  subscriptionCode :: string
  ledger_status :: string
  ledger_amount :: rat
  currency :: string
  ledger_startDate :: time
  nextPaymentDate :: time
  cancelledAt :: "time option"
  emailToken :: "string option"

datatype effect = UserSave object_id | LedgerSave object_id | LedgerCreate object_id

text \<open>The document store, the Redis refresh-token slots, and the list of writes that
  have been carried out, oldest first.\<close>

record store =
  users :: "user list"
  subscriptions :: "ledger list"
  sessions :: "object_id \<rightharpoonup> string"
  writes :: "effect list"

datatype error =
    TypeError
  | ReferenceError
  | DbError
  | JwtError
  | Error string
  | ErrorResponse string nat

text \<open>What the environment decides for one call: the clock and whether a write to each
  collection succeeds.\<close>

record env =
  now :: time
  user_save_ok :: bool
  ledger_save_ok :: bool

subsection \<open>Queries and writes\<close>

definition findById :: "store \<Rightarrow> object_id \<Rightarrow> user option" where
  "findById s i = find (\<lambda>u. uid u = i) (users s)"

definition findOne_email :: "store \<Rightarrow> string \<Rightarrow> user option" where
  "findOne_email s e = find (\<lambda>u. email u = e) (users s)"

definition findOne_subscriptionCode :: "store \<Rightarrow> string \<Rightarrow> ledger option" where
  "findOne_subscriptionCode s c = find (\<lambda>l. subscriptionCode l = c) (subscriptions s)"

definition findOne_active :: "store \<Rightarrow> object_id \<Rightarrow> ledger option" where
  "findOne_active s i =
     find (\<lambda>l. ledger_user l = i \<and> ledger_status l = ''active'') (subscriptions s)"

definition replace_user :: "user \<Rightarrow> user \<Rightarrow> user" where
  "replace_user u v = (if uid v = uid u then u else v)"

definition replace_ledger :: "ledger \<Rightarrow> ledger \<Rightarrow> ledger" where
  "replace_ledger l k = (if ledger_id k = ledger_id l then l else k)"

definition save_user :: "bool \<Rightarrow> user \<Rightarrow> store \<Rightarrow> error + store" where
  "save_user ok u s =
     (if ok
      then Inr (s\<lparr>users := map (replace_user u) (users s),
                  writes := writes s @ [UserSave (uid u)]\<rparr>)
      else Inl DbError)"

definition save_ledger :: "bool \<Rightarrow> ledger \<Rightarrow> store \<Rightarrow> error + store" where
  "save_ledger ok l s =
     (if ok
      then Inr (s\<lparr>subscriptions := map (replace_ledger l) (subscriptions s),
                  writes := writes s @ [LedgerSave (ledger_id l)]\<rparr>)
      else Inl DbError)"

definition fresh_id :: "ledger list \<Rightarrow> object_id" where
  "fresh_id ls = Suc (fold max (map ledger_id ls) 0)"

definition create_ledger :: "bool \<Rightarrow> ledger \<Rightarrow> store \<Rightarrow> error + store" where
  "create_ledger ok l s =
     (if ok
      then Inr (s\<lparr>subscriptions := subscriptions s @ [l\<lparr>ledger_id := fresh_id (subscriptions s)\<rparr>],
                  writes := writes s @ [LedgerCreate (fresh_id (subscriptions s))]\<rparr>)
      else Inl DbError)"

section \<open>Payment service\<close>

subsection \<open>Webhook events\<close>

text \<open>
  The \<^verbatim>\<open>data\<close> object of a provider event, with the members the handlers read.
  \<^verbatim>\<open>customer_email\<close> is \<^verbatim>\<open>data.customer.email\<close> and \<^verbatim>\<open>plan_interval\<close> is
  \<^verbatim>\<open>data.plan.interval\<close>; each is \<open>None\<close> when the enclosing object is missing, where
  the member access throws a \<^verbatim>\<open>TypeError\<close>. \<^verbatim>\<open>metadata_subscription\<close> is the truth value
  of \<^verbatim>\<open>metadata && metadata.subscription\<close>. \<^verbatim>\<open>paid_at\<close> is the timestamp the payload
  carries; no handler reads it.
\<close>

record webhook_data =
  reference :: string
  customer_email :: "string option"
  amount :: int
  metadata_subscription :: bool
  plan_interval :: "string option"
  subscription_code :: string
  next_payment_date :: time
  paid_at :: time

type_synonym 'a outcome = "(error + 'a) \<times> store"

definition handleChargeSuccess :: "env \<Rightarrow> webhook_data \<Rightarrow> store \<Rightarrow> unit outcome" where
  "handleChargeSuccess ev d s =
     (if metadata_subscription d then
        (case customer_email d of
           None \<Rightarrow> (Inl TypeError, s)
         | Some e \<Rightarrow>
             (case findOne_email s e of
                None \<Rightarrow> (Inr (), s)
              | Some u \<Rightarrow>
                  (case save_user (user_save_ok ev)
                          (u\<lparr>subscription := (subscription u)\<lparr>status := ''premium''\<rparr>\<rparr>) s of
                     Inl x \<Rightarrow> (Inl x, s)
                   | Inr s' \<Rightarrow> (Inr (), s'))))
      else (Inr (), s))"

definition handleSubscriptionCreate :: "env \<Rightarrow> webhook_data \<Rightarrow> store \<Rightarrow> unit outcome" where
  "handleSubscriptionCreate ev d s =
     (case customer_email d of
        None \<Rightarrow> (Inl TypeError, s)
      | Some e \<Rightarrow>
          (case findOne_email s e of
             None \<Rightarrow> (Inr (), s)
           | Some u \<Rightarrow>
               (case plan_interval d of
                  None \<Rightarrow> (Inl TypeError, s)
                | Some iv \<Rightarrow>
                    (case save_user (user_save_ok ev)
                            (u\<lparr>subscription :=
                                 \<lparr>status = ''premium'', plan = Some iv,
                                  startDate = Some (now ev),
                                  endDate = Some (next_payment_date d),
                                  paymentMethod = Some ''paystack'',
                                  autoRenew = True\<rparr>\<rparr>) s of
                       Inl x \<Rightarrow> (Inl x, s)
                     | Inr s' \<Rightarrow> (Inr (), s')))))"

definition handleSubscriptionDisable :: "env \<Rightarrow> webhook_data \<Rightarrow> store \<Rightarrow> unit outcome" where
  "handleSubscriptionDisable ev d s =
     (case findOne_subscriptionCode s (subscription_code d) of
        None \<Rightarrow> (Inr (), s)
      | Some l \<Rightarrow>
          (case save_ledger (ledger_save_ok ev) (l\<lparr>ledger_status := ''cancelled''\<rparr>) s of
             Inl x \<Rightarrow> (Inl x, s)
           | Inr s1 \<Rightarrow>
               (case findById s1 (ledger_user l) of
                  None \<Rightarrow> (Inr (), s1)
                | Some u \<Rightarrow>
                    (case save_user (user_save_ok ev)
                            (u\<lparr>subscription :=
                                 (subscription u)\<lparr>status := ''free'', autoRenew := False\<rparr>\<rparr>) s1 of
                       Inl x \<Rightarrow> (Inl x, s1)
                     | Inr s2 \<Rightarrow> (Inr (), s2)))))"

definition handlePaymentFailed :: "env \<Rightarrow> webhook_data \<Rightarrow> store \<Rightarrow> unit outcome" where
  "handlePaymentFailed ev d s =
     (case customer_email d of
        None \<Rightarrow> (Inl TypeError, s)
      | Some e \<Rightarrow> (Inr (), s))"

definition processWebhook :: "env \<Rightarrow> string \<Rightarrow> webhook_data \<Rightarrow> store \<Rightarrow> unit outcome" where
  "processWebhook ev event d s =
     (if event = ''charge.success'' then handleChargeSuccess ev d s
      else if event = ''subscription.create'' then handleSubscriptionCreate ev d s
      else if event = ''subscription.disable'' then handleSubscriptionDisable ev d s
      else if event = ''invoice.payment_failed'' then handlePaymentFailed ev d s
      else (Inr (), s))"

text \<open>A sequence of deliveries, each with its own environment; the store is threaded
  through, whether a delivery returned or threw.\<close>

fun deliver :: "(env \<times> string \<times> webhook_data) list \<Rightarrow> store \<Rightarrow> store" where
  "deliver [] s = s"
| "deliver ((ev, event, d) # ds) s = deliver ds (snd (processWebhook ev event d s))"

subsection \<open>Subscribing and cancelling\<close>

text \<open>
  The payment gateway is an external collaborator: the answers to the HTTP calls of one
  operation are inputs. \<open>None\<close> stands for a call where \<^verbatim>\<open>axios\<close> throws.
  \<^verbatim>\<open>get_customer\<close> is the reply to \<^verbatim>\<open>GET /customer/:email\<close> as the pair of
  \<^verbatim>\<open>data.status\<close> and the customer code of \<^verbatim>\<open>data.data\<close>.
\<close>

record paystack_subscription =
  ps_interval :: string
  ps_amount :: int
  ps_currency :: string
  ps_createdAt :: time
  ps_next_payment_date :: time
  ps_subscription_code :: string

record gateway =
  get_customer :: "(bool \<times> string) option"
  create_customer :: "string option"
  post_subscription :: "paystack_subscription option"
  post_disable :: "string option"




definition cancel_failed :: error where
  "cancel_failed = Error ''Failed to cancel subscription''"

definition cancelSubscription ::
  "env \<Rightarrow> gateway \<Rightarrow> object_id \<Rightarrow> store \<Rightarrow> string outcome" where
  "cancelSubscription ev g userId s =
     (case findOne_active s userId of
        None \<Rightarrow> (Inl cancel_failed, s)
      | Some l \<Rightarrow>
          (case post_disable g of
             None \<Rightarrow> (Inl cancel_failed, s)
           | Some resp \<Rightarrow>
               (case save_ledger (ledger_save_ok ev)
                       (l\<lparr>ledger_status := ''cancelled'', cancelledAt := Some (now ev)\<rparr>) s of
                  Inl x \<Rightarrow> (Inl cancel_failed, s)
                | Inr s1 \<Rightarrow>
                    (case findById s1 userId of
                       None \<Rightarrow> (Inl cancel_failed, s1)
                     | Some u \<Rightarrow>
                         (case save_user (user_save_ok ev)
                                 (u\<lparr>subscription :=
                                      (subscription u)\<lparr>status := ''cancelled'',
                                                        autoRenew := False\<rparr>\<rparr>) s1 of
                            Inl x \<Rightarrow> (Inl cancel_failed, s1)
                          | Inr s2 \<Rightarrow> (Inr resp, s2))))))"

subsection \<open>Webhook signature\<close>

text \<open>
  \<^verbatim>\<open>verifyWebhook(body, signature)\<close> hashes \<^verbatim>\<open>JSON.stringify(body)\<close>: its argument is
  the value that \<^verbatim>\<open>express.json()\<close> parsed (server.js installs the parser for every
  route), not the bytes that arrived. Both library calls are parameters of the model:
  the keyed hash \<^verbatim>\<open>crypto.createHmac('sha512', key).update(msg).digest('hex')\<close>, with
  the key as its first argument, and \<^verbatim>\<open>JSON.stringify\<close> on whatever type \<open>'b\<close> the
  parsed bodies have (\<^verbatim>\<open>payment.service.js\<close> requires \<^verbatim>\<open>crypto\<close> on its line 3).
\<close>

type_synonym keyed_hash = "string \<Rightarrow> string \<Rightarrow> string"

definition verifyWebhook ::
  "keyed_hash \<Rightarrow> ('b \<Rightarrow> string) \<Rightarrow> string \<Rightarrow> 'b \<Rightarrow> string \<Rightarrow> bool" where
  "verifyWebhook createHmac stringify paystackSecretKey body signature =
     (createHmac paystackSecretKey (stringify body) = signature)"

text \<open>
  JSON text allows insignificant whitespace (space, tab, line feed, carriage return)
  around its tokens. \<open>strip_ws\<close> drops it outside string literals; a text whose stripped
  form is the serialisation of a parsed value parses to that value.
\<close>

fun strip_ws :: "bool \<Rightarrow> string \<Rightarrow> string" where
  "strip_ws q [] = []"
| "strip_ws False (c # cs) =
     (if c = CHR 0x20 \<or> c = CHR 0x09 \<or> c = CHR 0x0A \<or> c = CHR 0x0D then strip_ws False cs
      else c # strip_ws (c = CHR 0x22) cs)"
| "strip_ws True [c] = [c]"
| "strip_ws True (c # d # cs) =
     (if c = CHR 0x5C then c # d # strip_ws True cs
      else c # strip_ws (c \<noteq> CHR 0x22) (d # cs))"

definition json_text_of :: "('b \<Rightarrow> string) \<Rightarrow> string \<Rightarrow> 'b \<Rightarrow> bool" where
  "json_text_of stringify raw body = (strip_ws False raw = stringify body)"

text \<open>The parsed body of the closed examples is the object with the one member
  \<^verbatim>\<open>event\<close> of value \<^verbatim>\<open>'charge.success'\<close>; \<^verbatim>\<open>JSON.stringify\<close> of it is the text
  below.\<close>

datatype sample_body = ChargeSuccessBody

definition JSON_stringify_sample :: "sample_body \<Rightarrow> string" where
  \<open>JSON_stringify_sample b = ''{"event":"charge.success"}''\<close>

text \<open>HMAC-SHA512 digests of the three inputs that the closed examples use, as a
  reference implementation computes them; the function is the empty string elsewhere.\<close>

definition hmac_sha512_samples :: keyed_hash where
  \<open>hmac_sha512_samples key msg =
     (if key = ''sk_test_secret'' \<and> msg = ''{"event":"charge.success"}''
        then ''d2c20958e71984927bee0613f77fa295c3fa82f681cebac2f292d603fbc0ec52d7302b91f7beb43b3e289b0cee9b9867daf70f7a5b1af70eb4d8da1909b5fd36''
      else if key = ''sk_test_secret'' \<and> msg = ''{"event":"charge.success"} ''
        then ''2b374b4bb1edb718014712f86e130391f9b573f970dcbd7913a82b3d2380229e3dca14588233a2ffaf7c3111d265225c90855f9b9fb3e3e297bb96cd6d2c5bfb''
      else if key = ''sk_wrong'' \<and> msg = ''{"event":"charge.success"}''
        then ''24c35e824686728910e48a8bbd36543641be0662d76df67366231716344b33a6561e92e692dbbaff48128ee1518a8eb19035a3e73446772a25f30d1e2eec341e''
      else [])\<close>

section \<open>Authentication\<close>

subsection \<open>Library functions and configuration\<close>

text \<open>
  \<^verbatim>\<open>jsonwebtoken\<close> and \<^verbatim>\<open>crypto\<close> are libraries: \<^verbatim>\<open>jwt.verify(token, secret)\<close>,
  \<^verbatim>\<open>jwt.sign(payload, secret, {expiresIn})\<close> and the hex SHA-256 digest are parameters.
  \<^verbatim>\<open>jwt_verify\<close> is the verification at the instant of the call, \<open>None\<close> where it
  throws (bad signature, malformed or expired token).
\<close>

datatype jwt_payload = AccessClaims object_id string string | RefreshClaims object_id

fun payload_id :: "jwt_payload \<Rightarrow> object_id" where
  "payload_id (AccessClaims i e r) = i"
| "payload_id (RefreshClaims i) = i"

record lib =
  jwt_verify :: "string \<Rightarrow> string \<Rightarrow> jwt_payload option"
  jwt_sign :: "jwt_payload \<Rightarrow> string \<Rightarrow> string \<Rightarrow> string"
  sha256_hex :: "string \<Rightarrow> string"

record config =
  JWT_SECRET :: string
  JWT_EXPIRE :: string
  JWT_REFRESH_SECRET :: string
  JWT_REFRESH_EXPIRE :: string

definition generateAuthToken :: "lib \<Rightarrow> config \<Rightarrow> user \<Rightarrow> string" where
  "generateAuthToken L cfg u =
     jwt_sign L (AccessClaims (uid u) (email u) (role u)) (JWT_SECRET cfg) (JWT_EXPIRE cfg)"

definition generateRefreshToken :: "lib \<Rightarrow> config \<Rightarrow> user \<Rightarrow> string" where
  "generateRefreshToken L cfg u =
     jwt_sign L (RefreshClaims (uid u)) (JWT_REFRESH_SECRET cfg) (JWT_REFRESH_EXPIRE cfg)"

subsection \<open>Module scope\<close>

text \<open>
  A module can use a library under the name that one of its \<^verbatim>\<open>require\<close> lines binds.
  \<^verbatim>\<open>auth.middleware.js\<close> requires \<^verbatim>\<open>jsonwebtoken\<close> as \<^verbatim>\<open>jwt\<close> (line 2).
  \<^verbatim>\<open>auth.controller.js\<close> requires the user model, \<^verbatim>\<open>asyncHandler\<close>,
  \<^verbatim>\<open>ErrorResponse\<close> and the email and auth services (lines 2 to 6) and neither
  \<^verbatim>\<open>jsonwebtoken\<close> nor \<^verbatim>\<open>crypto\<close>. \<^verbatim>\<open>user.model.js\<close> requires \<^verbatim>\<open>mongoose\<close>,
  \<^verbatim>\<open>bcryptjs\<close> and \<^verbatim>\<open>jsonwebtoken\<close> (lines 2 to 4) and not \<^verbatim>\<open>crypto\<close>.

  A name that no \<^verbatim>\<open>require\<close> line binds is looked up in the global scope of Node. There
  is no global \<^verbatim>\<open>jwt\<close>: its use throws a \<^verbatim>\<open>ReferenceError\<close>. A runtime with a global
  \<^verbatim>\<open>crypto\<close> (Node 19 and later) binds it to the Web Crypto object, which has neither
  \<^verbatim>\<open>createHash\<close> nor \<^verbatim>\<open>randomBytes\<close>, so the call throws a \<^verbatim>\<open>TypeError\<close>; a
  runtime without it throws a \<^verbatim>\<open>ReferenceError\<close>. \<^verbatim>\<open>crypto_global\<close> says which runtime
  it is.
\<close>

record scope =
  jwt_required :: bool
  crypto_required :: bool
  crypto_global :: bool

definition resolve_jwt :: "scope \<Rightarrow> lib \<Rightarrow> error + lib" where
  "resolve_jwt sc L = (if jwt_required sc then Inr L else Inl ReferenceError)"

definition resolve_crypto :: "scope \<Rightarrow> lib \<Rightarrow> error + lib" where
  "resolve_crypto sc L =
     (if crypto_required sc then Inr L
      else if crypto_global sc then Inl TypeError
      else Inl ReferenceError)"

definition auth_controller_scope :: "bool \<Rightarrow> scope" where
  "auth_controller_scope g =
     \<lparr>jwt_required = False, crypto_required = False, crypto_global = g\<rparr>"

definition user_model_scope :: "bool \<Rightarrow> scope" where
  "user_model_scope g =
     \<lparr>jwt_required = True, crypto_required = False, crypto_global = g\<rparr>"

subsection \<open>Session cache\<close>

text \<open>Modelled from the spec: \<^verbatim>\<open>src/services/auth.service.js\<close> is not among the sources.
  The Session Cache holds one refresh token per user id: \<^verbatim>\<open>put\<close> overwrites the entry,
  \<^verbatim>\<open>get\<close> returns the entry or absent, \<^verbatim>\<open>remove\<close> deletes it. The expiry of an entry
  by its TTL is a step of the environment with the effect of \<^verbatim>\<open>remove\<close>.\<close>

definition storeRefreshToken :: "object_id \<Rightarrow> string \<Rightarrow> store \<Rightarrow> store" where
  "storeRefreshToken i t s = s\<lparr>sessions := (sessions s)(i \<mapsto> t)\<rparr>"

definition getRefreshToken :: "store \<Rightarrow> object_id \<Rightarrow> string option" where
  "getRefreshToken s i = sessions s i"

definition removeRefreshToken :: "object_id \<Rightarrow> store \<Rightarrow> store" where
  "removeRefreshToken i s = s\<lparr>sessions := (sessions s)(i := None)\<rparr>"

subsection \<open>Controllers\<close>

datatype reply = AccessToken string | Message string

text \<open>A controller either sends a JSON response with a status code or hands an error to
  \<^verbatim>\<open>next\<close>; an exception that it does not catch reaches \<^verbatim>\<open>next\<close> through
  \<^verbatim>\<open>asyncHandler\<close>.\<close>

datatype response = Json nat reply | Failed error

text \<open>\<^verbatim>\<open>refreshToken\<close> in the scope \<open>sc\<close> of its module: the name \<^verbatim>\<open>jwt\<close> of line 135
  is resolved there, after the check for a missing token and before the cache is read.
  \<^verbatim>\<open>generateAuthToken\<close> is a method of the user model, where \<^verbatim>\<open>jwt\<close> is required.\<close>

definition refreshToken ::
  "scope \<Rightarrow> lib \<Rightarrow> config \<Rightarrow> string option \<Rightarrow> store \<Rightarrow> response \<times> store" where
  "refreshToken sc L cfg body_refreshToken s =
     (case body_refreshToken of
        None \<Rightarrow> (Failed (ErrorResponse ''Refresh token is required'' 400), s)
      | Some t \<Rightarrow>
          if t = [] then (Failed (ErrorResponse ''Refresh token is required'' 400), s)
          else
            (case resolve_jwt sc L of
               Inl x \<Rightarrow> (Failed x, s)
             | Inr jwt \<Rightarrow>
                 (case jwt_verify jwt t (JWT_REFRESH_SECRET cfg) of
                    None \<Rightarrow> (Failed JwtError, s)
                  | Some decoded \<Rightarrow>
                      (case getRefreshToken s (payload_id decoded) of
                         None \<Rightarrow> (Failed (ErrorResponse ''Invalid refresh token'' 401), s)
                       | Some storedToken \<Rightarrow>
                           if storedToken = [] \<or> storedToken \<noteq> t
                           then (Failed (ErrorResponse ''Invalid refresh token'' 401), s)
                           else
                             (case findById s (payload_id decoded) of
                                None \<Rightarrow> (Failed (ErrorResponse ''User not found'' 404), s)
                              | Some u \<Rightarrow>
                                  (Json 200 (AccessToken (generateAuthToken L cfg u)), s))))))"

text \<open>The request of an authenticated route carries \<^verbatim>\<open>req.user\<close>.\<close>

record request =
  authorization :: "string option"
  req_user :: "user option"

definition logout :: "request \<Rightarrow> store \<Rightarrow> response \<times> store" where
  "logout req s =
     (case req_user req of
        None \<Rightarrow> (Failed TypeError, s)
      | Some u \<Rightarrow> (Json 200 (Message ''Logged out successfully''), removeRefreshToken (uid u) s))"

subsection \<open>Email verification\<close>

text \<open>\<^verbatim>\<open>generateEmailVerificationToken\<close> draws 20 random bytes and returns their hex form;
  that string is the argument \<open>rnd\<close>. Its first statement is the call
  \<^verbatim>\<open>crypto.randomBytes(20)\<close>, so the name \<^verbatim>\<open>crypto\<close> is resolved before any field of
  the document is assigned. The caller saves the document afterwards.\<close>

definition generateEmailVerificationToken ::
  "scope \<Rightarrow> lib \<Rightarrow> string \<Rightarrow> time \<Rightarrow> user \<Rightarrow> error + string \<times> user" where
  "generateEmailVerificationToken sc L rnd t u =
     (case resolve_crypto sc L of
        Inl x \<Rightarrow> Inl x
      | Inr crypto \<Rightarrow>
          Inr (rnd, u\<lparr>emailVerificationToken := Some (sha256_hex crypto rnd),
                      emailVerificationExpire := Some (t + 24 * 60 * 60 * 1000)\<rparr>))"

definition token_matches :: "string \<Rightarrow> time \<Rightarrow> user \<Rightarrow> bool" where
  "token_matches h t u =
     (emailVerificationToken u = Some h \<and>
      (case emailVerificationExpire u of None \<Rightarrow> False | Some x \<Rightarrow> x > t))"

text \<open>\<^verbatim>\<open>verifyEmail\<close> in the scope of its module: the hash of the presented token
  (line 179) comes first.\<close>

definition verifyEmail ::
  "scope \<Rightarrow> lib \<Rightarrow> env \<Rightarrow> string \<Rightarrow> store \<Rightarrow> response \<times> store" where
  "verifyEmail sc L ev token s =
     (case resolve_crypto sc L of
        Inl x \<Rightarrow> (Failed x, s)
      | Inr crypto \<Rightarrow>
          (case find (token_matches (sha256_hex crypto token) (now ev)) (users s) of
             None \<Rightarrow> (Failed (ErrorResponse ''Invalid or expired verification token'' 400), s)
           | Some u \<Rightarrow>
               (case save_user (user_save_ok ev)
                       (u\<lparr>emailVerified := True, emailVerificationToken := None,
                          emailVerificationExpire := None\<rparr>) s of
                  Inl x \<Rightarrow> (Failed x, s)
                | Inr s' \<Rightarrow> (Json 200 (Message ''Email verified successfully''), s'))))"

subsection \<open>Middleware\<close>

text \<open>\<^verbatim>\<open>String.prototype.split(' ')\<close>: the pieces between single spaces, empty pieces
  included.\<close>

fun split_sp :: "string \<Rightarrow> string list" where
  "split_sp [] = [[]]"
| "split_sp (c # cs) =
     (case split_sp cs of
        [] \<Rightarrow> [[c]]
      | w # ws \<Rightarrow> if c = CHR '' '' then [] # w # ws else (c # w) # ws)"

text \<open>The token of the \<^verbatim>\<open>Authorization\<close> header: the second piece of a header that
  starts with \<^verbatim>\<open>Bearer\<close>. \<open>None\<close> is \<^verbatim>\<open>undefined\<close>; both it and the empty string
  are falsy.\<close>

definition bearer_token :: "string option \<Rightarrow> string option" where
  "bearer_token h =
     (case h of
        None \<Rightarrow> None
      | Some a \<Rightarrow>
          if a \<noteq> [] \<and> take 6 a = ''Bearer''
          then (case split_sp a of x # t # r \<Rightarrow> Some t | _ \<Rightarrow> None)
          else None)"

definition select_no_password :: "user \<Rightarrow> user" where
  "select_no_password u = u\<lparr>password := None\<rparr>"

datatype next_call = Next | NextError error

definition not_authorized :: error where
  "not_authorized = ErrorResponse ''Not authorized to access this route'' 401"

text \<open>\<^verbatim>\<open>protect\<close> assigns \<^verbatim>\<open>req.user\<close> before it checks the user; the save of
  \<^verbatim>\<open>lastActive\<close> writes that one field of the stored document.\<close>

definition protect ::
  "lib \<Rightarrow> config \<Rightarrow> env \<Rightarrow> request \<Rightarrow> store \<Rightarrow> next_call \<times> request \<times> store" where
  "protect L cfg ev req s =
     (case bearer_token (authorization req) of
        None \<Rightarrow> (NextError not_authorized, req, s)
      | Some t \<Rightarrow>
          if t = [] then (NextError not_authorized, req, s)
          else
            (case jwt_verify L t (JWT_SECRET cfg) of
               None \<Rightarrow> (NextError not_authorized, req, s)
             | Some decoded \<Rightarrow>
                 (case findById s (payload_id decoded) of
                    None \<Rightarrow> (NextError (ErrorResponse ''User not found'' 404),
                             req\<lparr>req_user := None\<rparr>, s)
                  | Some u \<Rightarrow>
                      if \<not> isActive u
                      then (NextError (ErrorResponse ''User account is deactivated'' 401),
                            req\<lparr>req_user := Some (select_no_password u)\<rparr>, s)
                      else
                        (case save_user (user_save_ok ev) (u\<lparr>lastActive := now ev\<rparr>) s of
                           Inl x \<Rightarrow> (NextError not_authorized,
                                     req\<lparr>req_user := Some (select_no_password (u\<lparr>lastActive := now ev\<rparr>))\<rparr>, s)
                         | Inr s' \<Rightarrow> (Next,
                                     req\<lparr>req_user := Some (select_no_password (u\<lparr>lastActive := now ev\<rparr>))\<rparr>, s')))))"

definition optionalAuth ::
  "lib \<Rightarrow> config \<Rightarrow> request \<Rightarrow> store \<Rightarrow> next_call \<times> request \<times> store" where
  "optionalAuth L cfg req s =
     (case bearer_token (authorization req) of
        None \<Rightarrow> (Next, req, s)
      | Some t \<Rightarrow>
          if t = [] then (Next, req, s)
          else
            (case jwt_verify L t (JWT_SECRET cfg) of
               None \<Rightarrow> (Next, req\<lparr>req_user := None\<rparr>, s)
             | Some decoded \<Rightarrow>
                 (Next,
                  req\<lparr>req_user := map_option select_no_password (findById s (payload_id decoded))\<rparr>,
                  s)))"

text \<open>A token library for the closed examples: the refresh token \<^verbatim>\<open>r7\<close> and the access
  token \<^verbatim>\<open>a7\<close> of user 7 verify under their own secrets, and nothing else verifies.\<close>

definition sample_lib :: lib where
  "sample_lib =
     \<lparr>jwt_verify = (\<lambda>t k.
          if t = ''r7'' \<and> k = ''refresh-secret'' then Some (RefreshClaims 7)
          else if t = ''a7'' \<and> k = ''access-secret'' then Some (AccessClaims 7 ''a@x.com'' ''user'')
          else None),
       jwt_sign = (\<lambda>p k x. case p of AccessClaims i e r \<Rightarrow> ''a7'' | RefreshClaims i \<Rightarrow> ''r7''),
       sha256_hex = (\<lambda>m. ''sha256:'' @ m)\<rparr>"

definition sample_config :: config where
  "sample_config =
     \<lparr>JWT_SECRET = ''access-secret'', JWT_EXPIRE = ''15m'',
       JWT_REFRESH_SECRET = ''refresh-secret'', JWT_REFRESH_EXPIRE = ''7d''\<rparr>"

section \<open>Sample data\<close>

text \<open>A premium user with an active ledger record, used by the closed examples.\<close>

definition sample_user :: user where
  "sample_user =
     \<lparr>uid = 7, name = ''Ama Mensah'', email = ''a@x.com'', phone = None,
       password = Some ''$2a$10$hash'', role = ''user'',
       subscription = \<lparr>status = ''premium'', plan = Some ''monthly'',
                       startDate = Some 1000, endDate = Some 9000,
                       paymentMethod = Some ''paystack'', autoRenew = True\<rparr>,
       emailVerified = False, emailVerificationToken = None,
       emailVerificationExpire = None, lastActive = 1000, isActive = True\<rparr>"

definition sample_ledger :: ledger where
  "sample_ledger =
     \<lparr>ledger_id = 1, ledger_user = 7, planId = ''PLN_1'', subscriptionCode = ''SUB_1'',
       ledger_status = ''active'', ledger_amount = 20, currency = ''GHS'',
       ledger_startDate = 1000, nextPaymentDate = 9000, cancelledAt = None,
       emailToken = None\<rparr>"

definition sample_store :: store where
  "sample_store =
     \<lparr>users = [sample_user], subscriptions = [sample_ledger],
       sessions = [7 \<mapsto> ''r7''], writes = []\<rparr>"

definition sample_env :: env where
  "sample_env = \<lparr>now = 5000, user_save_ok = True, ledger_save_ok = True\<rparr>"

definition sample_gateway :: gateway where
  "sample_gateway =
     \<lparr>get_customer = Some (True, ''CUS_1''), create_customer = None,
       post_subscription =
         Some \<lparr>ps_interval = ''monthly'', ps_amount = 2000, ps_currency = ''GHS'',
               ps_createdAt = 5000, ps_next_payment_date = 9000,
               ps_subscription_code = ''SUB_2''\<rparr>,
       post_disable = Some ''Subscription disabled successfully''\<rparr>"

text \<open>A \<^verbatim>\<open>subscription.disable\<close> event stamped 2000 and a \<^verbatim>\<open>charge.success\<close> event
  for the same customer stamped 1000.\<close>

definition disable_event :: webhook_data where
  "disable_event =
     \<lparr>reference = ''evt_2'', customer_email = Some ''a@x.com'', amount = 0,
       metadata_subscription = False, plan_interval = Some ''monthly'',
       subscription_code = ''SUB_1'', next_payment_date = 9000, paid_at = 2000\<rparr>"

definition charge_event :: webhook_data where
  "charge_event =
     \<lparr>reference = ''evt_1'', customer_email = Some ''a@x.com'', amount = 2000,
       metadata_subscription = True, plan_interval = Some ''monthly'',
       subscription_code = ''SUB_1'', next_payment_date = 9000, paid_at = 1000\<rparr>"

section \<open>Properties of the store\<close>


lemma uid_replace_user [simp]: "uid (replace_user u v) = uid v"
  by (simp add: replace_user_def)

lemma find_uid_map_replace:
  "find (\<lambda>v. uid v = i) (map (replace_user u) xs) =
     map_option (replace_user u) (find (\<lambda>v. uid v = i) xs)"
  by (induction xs) simp_all

lemma find_uid_of_member:
  "u \<in> set xs \<Longrightarrow> \<exists>v. find (\<lambda>v. uid v = uid u) xs = Some v \<and> uid v = uid u"
  by (induction xs) auto

lemma find_Some_member: "find P xs = Some x \<Longrightarrow> x \<in> set xs \<and> P x"
  by (induction xs) (auto split: if_splits)

lemma findById_save_user:
  assumes "save_user ok u' s = Inr s'" and "u \<in> set (users s)" and "uid u' = uid u"
  shows "findById s' (uid u) = Some u'"
proof -
  obtain v where v: "find (\<lambda>v. uid v = uid u) (users s) = Some v" "uid v = uid u"
    using find_uid_of_member [OF assms(2)] by blast
  have "users s' = map (replace_user u') (users s)"
    using assms(1) by (auto simp: save_user_def split: if_splits)
  then show ?thesis
    using v assms(3) by (simp add: findById_def find_uid_map_replace replace_user_def)
qed

lemma find_email_map_replace:
  assumes "find (\<lambda>v. email v = e) xs = Some u" and "uid u' = uid u" and "email u' = e"
  shows "find (\<lambda>v. email v = e) (map (replace_user u') xs) = Some u'"
  using assms by (induction xs) (auto simp: replace_user_def split: if_splits)


lemma save_ledger_users: "save_ledger ok l s = Inr s1 \<Longrightarrow> users s1 = users s"
  by (auto simp: save_ledger_def split: if_splits)

lemma save_user_subscriptions: "save_user ok u s = Inr s1 \<Longrightarrow> subscriptions s1 = subscriptions s"
  by (auto simp: save_user_def split: if_splits)

lemma save_ledger_member:
  assumes "save_ledger ok l' s = Inr s1" and "l \<in> set (subscriptions s)"
    and "ledger_id l' = ledger_id l"
  shows "l' \<in> set (subscriptions s1)"
proof -
  have "subscriptions s1 = map (replace_ledger l') (subscriptions s)"
    using assms(1) by (auto simp: save_ledger_def split: if_splits)
  moreover have "replace_ledger l' l = l'"
    using assms(3) by (simp add: replace_ledger_def)
  ultimately show ?thesis
    using assms(2) by (metis image_eqI set_map)
qed

text \<open>Unfolding sets for the evaluation of closed examples.\<close>

lemmas store_defs =
  findById_def findOne_email_def findOne_subscriptionCode_def findOne_active_def
  replace_user_def replace_ledger_def save_user_def save_ledger_def create_ledger_def
  fresh_id_def

lemmas webhook_defs =
  processWebhook_def handleChargeSuccess_def handleSubscriptionCreate_def
  handleSubscriptionDisable_def handlePaymentFailed_def

lemmas sample_defs =
  sample_user_def sample_ledger_def sample_store_def sample_env_def sample_gateway_def
  disable_event_def charge_event_def

section \<open>Webhook processing\<close>

subsection \<open>Order of events\<close>


lemma handleChargeSuccess_paid_at:
  "handleChargeSuccess ev (d\<lparr>paid_at := t\<rparr>) s = handleChargeSuccess ev d s"
  by (simp add: handleChargeSuccess_def)

text \<open>
  C1, as amended. \<^verbatim>\<open>processWebhook\<close> has no ordering guard: a \<^verbatim>\<open>charge.success\<close>
  event that carries subscription metadata, for a customer whose email finds a user, sets
  that user's subscription status to \<^verbatim>\<open>premium\<close> whenever the save succeeds, whatever
  timestamp \<open>t\<close> the payload carries and whatever events were applied to the store
  \<open>s\<close> before.
\<close>

theorem charge_success_sets_premium_unordered:
  assumes "metadata_subscription d" and "customer_email d = Some e"
    and "findOne_email s e = Some u" and "user_save_ok ev"
  shows "\<exists>s'. processWebhook ev ''charge.success'' (d\<lparr>paid_at := t\<rparr>) s = (Inr (), s')
           \<and> map_option (\<lambda>v. status (subscription v)) (findById s' (uid u)) = Some ''premium''"
proof -
  let ?u' = "u\<lparr>subscription := (subscription u)\<lparr>status := ''premium''\<rparr>\<rparr>"
  obtain s' where s': "save_user (user_save_ok ev) ?u' s = Inr s'"
    using assms(4) by (simp add: save_user_def)
  have mem: "u \<in> set (users s)"
    using assms(3) find_Some_member [of "\<lambda>v. email v = e" "users s" u]
    by (simp add: findOne_email_def)
  have "findById s' (uid u) = Some ?u'"
    using findById_save_user [OF s' mem] by simp
  moreover have "processWebhook ev ''charge.success'' (d\<lparr>paid_at := t\<rparr>) s = (Inr (), s')"
    using assms s' by (simp add: processWebhook_def handleChargeSuccess_def)
  ultimately show ?thesis by simp
qed

text \<open>The theorem at the store left by a \<^verbatim>\<open>subscription.disable\<close> event stamped 2000,
  for a charge stamped 1000.\<close>

theorem charge_success_sets_premium_unordered_witness:
  "metadata_subscription charge_event \<and> customer_email charge_event = Some ''a@x.com''
   \<and> findOne_email (snd (processWebhook sample_env ''subscription.disable'' disable_event sample_store))
        ''a@x.com'' \<noteq> None
   \<and> user_save_ok sample_env
   \<and> (\<exists>s'. processWebhook sample_env ''charge.success'' (charge_event\<lparr>paid_at := 1000\<rparr>)
               (snd (processWebhook sample_env ''subscription.disable'' disable_event sample_store))
             = (Inr (), s')
           \<and> map_option (\<lambda>v. status (subscription v)) (findById s' 7) = Some ''premium'')"
proof -
  let ?s = "snd (processWebhook sample_env ''subscription.disable'' disable_event sample_store)"
  let ?u = "sample_user\<lparr>subscription := (subscription sample_user)\<lparr>status := ''free'', autoRenew := False\<rparr>\<rparr>"
  have a: "metadata_subscription charge_event" "customer_email charge_event = Some ''a@x.com''"
    "user_save_ok sample_env"
    by (simp_all add: sample_defs)
  have b: "findOne_email ?s ''a@x.com'' = Some ?u"
    by (simp add: webhook_defs store_defs sample_defs)
  have c: "uid ?u = 7" by (simp add: sample_defs)
  show ?thesis
    using charge_success_sets_premium_unordered [OF a(1) a(2) b a(3), of 1000] a b c by simp
qed

text \<open>
  C1 as stated fails: after the disable event (stamped 2000) and then the charge event
  (stamped 1000, so older), the status of user 7 is \<^verbatim>\<open>premium\<close>, not \<^verbatim>\<open>cancelled\<close>.
\<close>

theorem stale_charge_regresses_counterexample:
  "paid_at charge_event < paid_at disable_event
   \<and> map_option (\<lambda>v. status (subscription v))
        (findById (deliver [(sample_env, ''subscription.disable'', disable_event),
                            (sample_env, ''charge.success'', charge_event)] sample_store) 7)
      = Some ''premium''"
  by (simp add: webhook_defs store_defs sample_defs)

subsection \<open>Repeated deliveries\<close>


lemma find_email_save_user:
  assumes "findOne_email s e = Some u" and "uid u' = uid u" and "email u' = e"
    and "save_user True u' s = Inr s'"
  shows "findOne_email s' e = Some u'"
  using assms find_email_map_replace [of e "users s" u u']
  by (auto simp: findOne_email_def save_user_def)

lemma handleSubscriptionCreate_step:
  assumes "customer_email d = Some e" and "plan_interval d = Some iv"
    and "findOne_email s e = Some u" and "user_save_ok ev"
  shows "\<exists>u'. findOne_email (snd (processWebhook ev ''subscription.create'' d s)) e = Some u'
            \<and> uid u' = uid u
            \<and> fst (processWebhook ev ''subscription.create'' d s) = Inr ()
            \<and> writes (snd (processWebhook ev ''subscription.create'' d s)) = writes s @ [UserSave (uid u)]
            \<and> subscriptions (snd (processWebhook ev ''subscription.create'' d s)) = subscriptions s"
proof -
  let ?u' = "u\<lparr>subscription :=
                 \<lparr>status = ''premium'', plan = Some iv, startDate = Some (now ev),
                  endDate = Some (next_payment_date d), paymentMethod = Some ''paystack'',
                  autoRenew = True\<rparr>\<rparr>"
  obtain s' where s': "save_user True ?u' s = Inr s'"
    by (simp add: save_user_def)
  have e: "email u = e"
    using assms(3) find_Some_member [of "\<lambda>v. email v = e" "users s" u]
    by (simp add: findOne_email_def)
  have run: "processWebhook ev ''subscription.create'' d s = (Inr (), s')"
    using assms s' by (simp add: processWebhook_def handleSubscriptionCreate_def)
  have "findOne_email s' e = Some ?u'"
    using find_email_save_user [OF assms(3) _ _ s'] e by simp
  moreover have "writes s' = writes s @ [UserSave (uid u)]" "subscriptions s' = subscriptions s"
    using s' by (auto simp: save_user_def)
  ultimately show ?thesis using run by simp
qed

text \<open>
  C2, as amended. \<^verbatim>\<open>processWebhook\<close> keeps no idempotency marker and reads no event
  reference: each delivery runs its handler again. Delivering the same
  \<^verbatim>\<open>subscription.create\<close> payload \<open>N = length evs\<close> times, for a customer whose email
  finds a user and with every save succeeding, performs \<open>N\<close> saves of the user snapshot
  and no write to the ledger.
\<close>

theorem redelivery_reruns_handler:
  assumes "customer_email d = Some e" and "plan_interval d = Some iv"
    and "findOne_email s e = Some u" and "list_all user_save_ok evs"
  shows "writes (deliver (map (\<lambda>ev. (ev, ''subscription.create'', d)) evs) s)
           = writes s @ replicate (length evs) (UserSave (uid u))
         \<and> subscriptions (deliver (map (\<lambda>ev. (ev, ''subscription.create'', d)) evs) s)
           = subscriptions s"
  using assms(3,4)
proof (induction evs arbitrary: s u)
  case Nil
  then show ?case by simp
next
  case (Cons ev evs)
  let ?s1 = "snd (processWebhook ev ''subscription.create'' d s)"
  from Cons.prems have ok: "user_save_ok ev" and rest: "list_all user_save_ok evs"
    by simp_all
  obtain u' where u': "findOne_email ?s1 e = Some u'" "uid u' = uid u"
    and w: "writes ?s1 = writes s @ [UserSave (uid u)]"
    and l: "subscriptions ?s1 = subscriptions s"
    using handleSubscriptionCreate_step [OF assms(1) assms(2) Cons.prems(1) ok] by blast
  show ?case
    using Cons.IH [OF u'(1) rest] u'(2) w l by (simp add: replicate_app_Cons_same)
qed

text \<open>
  C2 as stated fails: two deliveries of one payload make two snapshot writes and no
  ledger write, where the claim has exactly one of each.
\<close>

theorem redelivery_reruns_handler_counterexample:
  "writes (deliver [(sample_env, ''subscription.create'', charge_event),
                    (sample_env, ''subscription.create'', charge_event)] sample_store)
     = [UserSave 7, UserSave 7]"
  by (simp add: webhook_defs store_defs sample_defs)

text \<open>The theorem at three deliveries to the sample store.\<close>

theorem redelivery_reruns_handler_witness:
  "customer_email charge_event = Some ''a@x.com'' \<and> plan_interval charge_event = Some ''monthly''
   \<and> findOne_email sample_store ''a@x.com'' = Some sample_user
   \<and> list_all user_save_ok [sample_env, sample_env, sample_env]
   \<and> writes (deliver (map (\<lambda>ev. (ev, ''subscription.create'', charge_event))
                [sample_env, sample_env, sample_env]) sample_store)
       = [UserSave 7, UserSave 7, UserSave 7]
   \<and> subscriptions (deliver (map (\<lambda>ev. (ev, ''subscription.create'', charge_event))
                [sample_env, sample_env, sample_env]) sample_store) = [sample_ledger]"
proof -
  have a: "customer_email charge_event = Some ''a@x.com''"
    "plan_interval charge_event = Some ''monthly''"
    "findOne_email sample_store ''a@x.com'' = Some sample_user"
    "list_all user_save_ok [sample_env, sample_env, sample_env]"
    by (simp_all add: store_defs sample_defs)
  have b: "writes sample_store = []" "uid sample_user = 7" "subscriptions sample_store = [sample_ledger]"
    by (simp_all add: sample_defs)
  show ?thesis
    using redelivery_reruns_handler [OF a] a b by (simp add: numeral_3_eq_3)
qed

subsection \<open>Transitions\<close>

text \<open>The two ways into a cancelled subscription, for every store: the provider's event
  leaves the snapshot at \<^verbatim>\<open>free\<close>, the user's cancel action at \<^verbatim>\<open>cancelled\<close>.\<close>

lemma handleSubscriptionDisable_sets_free:
  assumes "findOne_subscriptionCode s (subscription_code d) = Some l"
    and "findById s (ledger_user l) = Some u"
    and "ledger_save_ok ev" and "user_save_ok ev"
  shows "\<exists>s'. processWebhook ev ''subscription.disable'' d s = (Inr (), s')
           \<and> map_option (\<lambda>v. status (subscription v)) (findById s' (ledger_user l)) = Some ''free''
           \<and> l\<lparr>ledger_status := ''cancelled''\<rparr> \<in> set (subscriptions s')"
proof -
  let ?l' = "l\<lparr>ledger_status := ''cancelled''\<rparr>"
  let ?u' = "u\<lparr>subscription := (subscription u)\<lparr>status := ''free'', autoRenew := False\<rparr>\<rparr>"
  obtain s1 where s1: "save_ledger (ledger_save_ok ev) ?l' s = Inr s1"
    using assms(3) by (simp add: save_ledger_def)
  have u1: "findById s1 (ledger_user l) = Some u"
    using assms(2) save_ledger_users [OF s1] by (simp add: findById_def)
  obtain s2 where s2: "save_user (user_save_ok ev) ?u' s1 = Inr s2"
    using assms(4) by (simp add: save_user_def)
  have run: "processWebhook ev ''subscription.disable'' d s = (Inr (), s2)"
    using assms(1) s1 u1 s2 by (simp add: processWebhook_def handleSubscriptionDisable_def)
  have mem: "u \<in> set (users s1)" and i: "uid u = ledger_user l"
    using u1 find_Some_member [of "\<lambda>v. uid v = ledger_user l" "users s1" u]
    by (simp_all add: findById_def)
  have "findById s2 (uid u) = Some ?u'"
    by (rule findById_save_user [OF s2 mem]) simp
  moreover have "l \<in> set (subscriptions s)"
    using assms(1) find_Some_member [of "\<lambda>k. subscriptionCode k = subscription_code d" "subscriptions s" l]
    by (simp add: findOne_subscriptionCode_def)
  then have "?l' \<in> set (subscriptions s2)"
    using save_ledger_member [OF s1] save_user_subscriptions [OF s2] by simp
  ultimately show ?thesis
    using run i by simp
qed

lemma cancelSubscription_sets_cancelled:
  assumes "fst (cancelSubscription ev g i s) = Inr r"
  shows "map_option (\<lambda>v. status (subscription v)) (findById (snd (cancelSubscription ev g i s)) i)
           = Some ''cancelled''
         \<and> (\<exists>l. findOne_active s i = Some l
               \<and> l\<lparr>ledger_status := ''cancelled'', cancelledAt := Some (now ev)\<rparr>
                   \<in> set (subscriptions (snd (cancelSubscription ev g i s))))"
proof -
  from assms obtain l resp s1 u s2 where
    l: "findOne_active s i = Some l"
    and s1: "save_ledger (ledger_save_ok ev)
               (l\<lparr>ledger_status := ''cancelled'', cancelledAt := Some (now ev)\<rparr>) s = Inr s1"
    and u: "findById s1 i = Some u"
    and s2: "save_user (user_save_ok ev)
               (u\<lparr>subscription := (subscription u)\<lparr>status := ''cancelled'', autoRenew := False\<rparr>\<rparr>) s1
             = Inr s2"
    and res: "cancelSubscription ev g i s = (Inr resp, s2)"
    by (auto simp: cancelSubscription_def split: option.splits sum.splits)
  have mem: "u \<in> set (users s1)" and i: "uid u = i"
    using u find_Some_member [of "\<lambda>v. uid v = i" "users s1" u] by (simp_all add: findById_def)
  have "findById s2 (uid u)
          = Some (u\<lparr>subscription := (subscription u)\<lparr>status := ''cancelled'', autoRenew := False\<rparr>\<rparr>)"
    by (rule findById_save_user [OF s2 mem]) simp
  moreover have "l \<in> set (subscriptions s)"
    using l find_Some_member [of "\<lambda>k. ledger_user k = i \<and> ledger_status k = ''active''" "subscriptions s" l]
    by (simp add: findOne_active_def)
  then have "l\<lparr>ledger_status := ''cancelled'', cancelledAt := Some (now ev)\<rparr> \<in> set (subscriptions s2)"
    using save_ledger_member [OF s1] save_user_subscriptions [OF s2] by simp
  ultimately show ?thesis
    using res i l by simp
qed

text \<open>
  C4. The claim has the provider's \<^verbatim>\<open>subscription.disable\<close> event and the user's cancel
  action both end in \<^verbatim>\<open>cancelled\<close> on the ledger record and on the snapshot. On the
  sample store the event sets the ledger record to \<^verbatim>\<open>cancelled\<close> and the snapshot to
  \<^verbatim>\<open>free\<close>, while \<^verbatim>\<open>cancelSubscription\<close> sets both to \<^verbatim>\<open>cancelled\<close>.
\<close>

theorem disable_sets_free_not_cancelled:
  "map_option (\<lambda>v. status (subscription v))
     (findById (snd (processWebhook sample_env ''subscription.disable'' disable_event sample_store)) 7)
     = Some ''free''
   \<and> map ledger_status
       (subscriptions (snd (processWebhook sample_env ''subscription.disable'' disable_event sample_store)))
     = [''cancelled'']
   \<and> map_option (\<lambda>v. status (subscription v))
       (findById (snd (cancelSubscription sample_env sample_gateway 7 sample_store)) 7)
     = Some ''cancelled''
   \<and> map ledger_status
       (subscriptions (snd (cancelSubscription sample_env sample_gateway 7 sample_store)))
     = [''cancelled'']"
  by (simp add: webhook_defs cancelSubscription_def store_defs sample_defs)

text \<open>
  C5, as amended. An \<^verbatim>\<open>invoice.payment_failed\<close> event changes neither the user snapshot
  nor the ledger (the handler only logs), and \<^verbatim>\<open>past_due\<close> is not a value of the
  schema's status enum.
\<close>

theorem payment_failed_changes_nothing:
  "snd (processWebhook ev ''invoice.payment_failed'' d s) = s
   \<and> ''past_due'' \<notin> set status_enum"
  by (simp add: processWebhook_def handlePaymentFailed_def status_enum_def split: option.split)

text \<open>C5 as stated fails: the premium sample user is not \<^verbatim>\<open>past_due\<close> after the
  event.\<close>

theorem payment_failed_counterexample:
  "map_option (\<lambda>v. status (subscription v)) (findById sample_store 7) = Some ''premium''
   \<and> map_option (\<lambda>v. status (subscription v))
       (findById (snd (processWebhook sample_env ''invoice.payment_failed'' charge_event sample_store)) 7)
     \<noteq> Some ''past_due''"
  by (simp add: webhook_defs store_defs sample_defs)


section \<open>Subscribe and cancel\<close>
















section \<open>Webhook signature\<close>

text \<open>
  C3, as amended. \<^verbatim>\<open>verifyWebhook\<close> returns false whenever the signature differs from
  the keyed hash of \<^verbatim>\<open>JSON.stringify(body)\<close>, the serialisation of the parsed body,
  whatever the hash, the serialiser, the secret and the body are. It is a function of the
  secret, the parsed body and the signature alone, so it changes no state; rejecting the
  request is left to its caller.
\<close>

theorem verifyWebhook_hashes_serialised_body:
  assumes "signature \<noteq> createHmac key (stringify body)"
  shows "\<not> verifyWebhook createHmac stringify key body signature"
  using assms by (auto simp: verifyWebhook_def)

text \<open>The theorem for a signature made with the wrong secret.\<close>

theorem verifyWebhook_hashes_serialised_body_witness:
  \<open>hmac_sha512_samples ''sk_wrong'' (JSON_stringify_sample ChargeSuccessBody)
     \<noteq> hmac_sha512_samples ''sk_test_secret'' (JSON_stringify_sample ChargeSuccessBody)
   \<and> \<not> verifyWebhook hmac_sha512_samples JSON_stringify_sample ''sk_test_secret''
         ChargeSuccessBody
         (hmac_sha512_samples ''sk_wrong'' (JSON_stringify_sample ChargeSuccessBody))\<close>
proof -
  have a: \<open>hmac_sha512_samples ''sk_wrong'' (JSON_stringify_sample ChargeSuccessBody)
     \<noteq> hmac_sha512_samples ''sk_test_secret'' (JSON_stringify_sample ChargeSuccessBody)\<close>
    by (simp add: hmac_sha512_samples_def JSON_stringify_sample_def)
  show ?thesis
    using verifyWebhook_hashes_serialised_body
            [where createHmac = hmac_sha512_samples and key = "''sk_test_secret''"
               and stringify = JSON_stringify_sample and body = ChargeSuccessBody, OF a] a
    by blast
qed

text \<open>
  C3 as stated fails: a raw body with one trailing space parses to the same object as the
  body the provider signed. The signature header is not the HMAC of the raw bytes that
  arrived, and \<^verbatim>\<open>verifyWebhook\<close> accepts.
\<close>

theorem raw_body_mutation_accepted_counterexample:
  \<open>json_text_of JSON_stringify_sample ''{"event":"charge.success"} '' ChargeSuccessBody
   \<and> ''d2c20958e71984927bee0613f77fa295c3fa82f681cebac2f292d603fbc0ec52d7302b91f7beb43b3e289b0cee9b9867daf70f7a5b1af70eb4d8da1909b5fd36''
       \<noteq> hmac_sha512_samples ''sk_test_secret'' ''{"event":"charge.success"} ''
   \<and> verifyWebhook hmac_sha512_samples JSON_stringify_sample ''sk_test_secret''
        ChargeSuccessBody
        ''d2c20958e71984927bee0613f77fa295c3fa82f681cebac2f292d603fbc0ec52d7302b91f7beb43b3e289b0cee9b9867daf70f7a5b1af70eb4d8da1909b5fd36''\<close>
  by (simp add: json_text_of_def verifyWebhook_def hmac_sha512_samples_def
      JSON_stringify_sample_def)

section \<open>Refresh tokens\<close>

lemmas auth_defs =
  refreshToken_def getRefreshToken_def storeRefreshToken_def removeRefreshToken_def
  logout_def generateAuthToken_def sample_lib_def sample_config_def
  resolve_jwt_def resolve_crypto_def auth_controller_scope_def user_model_scope_def

lemma refreshToken_store: "snd (refreshToken sc L cfg b s) = s"
  by (simp add: refreshToken_def split: option.split sum.split)

lemma refreshToken_missing:
  "refreshToken sc L cfg None s = (Failed (ErrorResponse ''Refresh token is required'' 400), s)"
  "refreshToken sc L cfg (Some []) s = (Failed (ErrorResponse ''Refresh token is required'' 400), s)"
  by (simp_all add: refreshToken_def)

text \<open>In the scope of \<^verbatim>\<open>auth.controller.js\<close> every request that presents a token ends at
  line 135.\<close>

lemma refreshToken_unbound:
  assumes "\<not> jwt_required sc" and "t \<noteq> []"
  shows "refreshToken sc L cfg (Some t) s = (Failed ReferenceError, s)"
  using assms by (simp add: refreshToken_def resolve_jwt_def)

text \<open>What lines 135 to 159 do in a scope that binds \<^verbatim>\<open>jwt\<close>, which the module's own
  scope does not: a token that fails verification throws, a cache entry that is absent or
  differs is answered 401, and a 200 leaves the store as it was with the presented token
  still the cached entry.\<close>

lemma refreshToken_verify_throws_if_bound:
  assumes "jwt_required sc" and "t \<noteq> []"
    and "jwt_verify L t (JWT_REFRESH_SECRET cfg) = None"
  shows "refreshToken sc L cfg (Some t) s = (Failed JwtError, s)"
  using assms by (simp add: refreshToken_def resolve_jwt_def)

lemma refreshToken_mismatch_if_bound:
  assumes "jwt_required sc" and "t \<noteq> []"
    and "jwt_verify L t (JWT_REFRESH_SECRET cfg) = Some decoded"
    and "getRefreshToken s (payload_id decoded) \<noteq> Some t"
  shows "refreshToken sc L cfg (Some t) s = (Failed (ErrorResponse ''Invalid refresh token'' 401), s)"
  using assms by (simp add: refreshToken_def resolve_jwt_def split: option.split)

lemma refreshToken_success_if_bound:
  assumes "refreshToken sc L cfg b s = (Json 200 r, s')"
  shows "s' = s \<and> jwt_required sc
         \<and> (\<exists>t decoded.
               b = Some t \<and> jwt_verify L t (JWT_REFRESH_SECRET cfg) = Some decoded
               \<and> getRefreshToken s' (payload_id decoded) = Some t)"
proof -
  have eq: "s' = s"
    using assms refreshToken_store [of sc L cfg b s] by simp
  from assms obtain t decoded where
    "b = Some t" "jwt_required sc"
    "jwt_verify L t (JWT_REFRESH_SECRET cfg) = Some decoded"
    "getRefreshToken s (payload_id decoded) = Some t"
    by (auto simp: refreshToken_def resolve_jwt_def split: option.splits if_splits)
  then show ?thesis
    using eq by blast
qed

text \<open>
  C6. The claim has a refresh request whose token is not the cached entry of its user fail
  with status 401. In \<^verbatim>\<open>auth.controller.js\<close> the name \<^verbatim>\<open>jwt\<close> is unbound, so the request
  throws a \<^verbatim>\<open>ReferenceError\<close> at \<^verbatim>\<open>jwt.verify\<close> for every token \<open>c # t\<close>, before the
  cache is read: the token \<^verbatim>\<open>r7\<close> of user 7, presented against an empty cache, is
  answered with that error and not with the 401 of line 141.
\<close>

theorem refresh_mismatch_throws_reference_error:
  "jwt_verify sample_lib ''r7'' (JWT_REFRESH_SECRET sample_config) = Some (RefreshClaims 7)
   \<and> getRefreshToken (sample_store\<lparr>sessions := Map.empty\<rparr>) 7 = None
   \<and> refreshToken (auth_controller_scope g) sample_lib sample_config (Some ''r7'')
        (sample_store\<lparr>sessions := Map.empty\<rparr>)
       = (Failed ReferenceError, sample_store\<lparr>sessions := Map.empty\<rparr>)
   \<and> refreshToken (auth_controller_scope g) L cfg (Some (c # t)) s = (Failed ReferenceError, s)"
  by (simp add: auth_defs)

text \<open>
  C9. The claim has a refresh token exchanged for an access token, and exchanged again. In
  \<^verbatim>\<open>auth.controller.js\<close> no refresh request is answered 200: the token \<^verbatim>\<open>r7\<close>, which
  is the cached entry of user 7, throws a \<^verbatim>\<open>ReferenceError\<close>, and so does every other
  token. The store, the Session Cache included, is returned as it was.
\<close>

theorem refresh_never_succeeds:
  "getRefreshToken sample_store 7 = Some ''r7''
   \<and> refreshToken (auth_controller_scope g) sample_lib sample_config (Some ''r7'') sample_store
       = (Failed ReferenceError, sample_store)
   \<and> fst (refreshToken (auth_controller_scope g) L cfg b s) \<noteq> Json 200 r
   \<and> snd (refreshToken (auth_controller_scope g) L cfg b s) = s"
  by (simp add: auth_defs sample_store_def split: option.split)

section \<open>Email verification\<close>

lemma find_match_map_replace:
  assumes "P u'" and "\<forall>v\<in>set xs. uid v \<noteq> uid u' \<longrightarrow> \<not> P v"
    and "\<exists>v\<in>set xs. uid v = uid u'"
  shows "find P (map (replace_user u') xs) = Some u'"
  using assms(2,3) assms(1)
  by (induction xs) (auto simp: replace_user_def)

text \<open>What the two functions do in a scope that binds \<^verbatim>\<open>crypto\<close>, which neither module's
  own scope does: the hash of the returned token and an expiry 24 hours ahead are stored,
  and the token presented before the expiry verifies the email and clears both.\<close>

lemma email_verification_round_trip_if_bound:
  assumes "crypto_required sc" and "findById s i = Some u"
    and "generateEmailVerificationToken sc L rnd t0 u = Inr (tok, u')"
    and "save_user True u' s = Inr s1"
    and "\<forall>v\<in>set (users s). uid v \<noteq> i \<longrightarrow> emailVerificationToken v \<noteq> Some (sha256_hex L rnd)"
    and "now ev < t0 + 24 * 60 * 60 * 1000"
    and "user_save_ok ev"
  shows "u' = u\<lparr>emailVerificationToken := Some (sha256_hex L tok),
                 emailVerificationExpire := Some (t0 + 24 * 60 * 60 * 1000)\<rparr>
         \<and> (\<exists>s2. verifyEmail sc L ev tok s1
                    = (Json 200 (Message ''Email verified successfully''), s2)
                \<and> findById s2 i
                    = Some (u\<lparr>emailVerified := True, emailVerificationToken := None,
                              emailVerificationExpire := None\<rparr>))"
proof -
  have tok: "tok = rnd"
    and u': "u' = u\<lparr>emailVerificationToken := Some (sha256_hex L rnd),
                    emailVerificationExpire := Some (t0 + 24 * 60 * 60 * 1000)\<rparr>"
    using assms(1,3) by (auto simp: generateEmailVerificationToken_def resolve_crypto_def)
  have i: "uid u = i" and mem: "u \<in> set (users s)"
    using assms(2) find_Some_member [of "\<lambda>v. uid v = i" "users s" u]
    by (simp_all add: findById_def)
  have users1: "users s1 = map (replace_user u') (users s)"
    using assms(4) by (auto simp: save_user_def)
  let ?P = "token_matches (sha256_hex L tok) (now ev)"
  have P: "?P u'"
    using u' tok assms(6) by (simp add: token_matches_def)
  have others: "\<forall>v\<in>set (users s). uid v \<noteq> uid u' \<longrightarrow> \<not> ?P v"
    using assms(5) u' i tok by (auto simp: token_matches_def)
  have some: "\<exists>v\<in>set (users s). uid v = uid u'"
    using mem u' by auto
  have found: "find ?P (users s1) = Some u'"
    unfolding users1 by (rule find_match_map_replace [OF P others some])
  let ?v = "u'\<lparr>emailVerified := True, emailVerificationToken := None,
                emailVerificationExpire := None\<rparr>"
  obtain s2 where s2: "save_user (user_save_ok ev) ?v s1 = Inr s2"
    using assms(7) by (simp add: save_user_def)
  have run: "verifyEmail sc L ev tok s1 = (Json 200 (Message ''Email verified successfully''), s2)"
    using found s2 assms(1) by (simp add: verifyEmail_def resolve_crypto_def)
  have mem1: "u' \<in> set (users s1)"
    using found find_Some_member [of ?P "users s1" u'] by simp
  have "findById s2 (uid u') = Some ?v"
    by (rule findById_save_user [OF s2 mem1]) simp
  then have "findById s2 i = Some (u\<lparr>emailVerified := True, emailVerificationToken := None,
                                      emailVerificationExpire := None\<rparr>)"
    using u' i by simp
  then show ?thesis
    using run u' tok by blast
qed

text \<open>
  C8. The claim has the token generated, its hash stored and the cleartext verified. In
  \<^verbatim>\<open>user.model.js\<close> and in \<^verbatim>\<open>auth.controller.js\<close> the name \<^verbatim>\<open>crypto\<close> is not
  required: \<^verbatim>\<open>generateEmailVerificationToken\<close> throws at \<^verbatim>\<open>crypto.randomBytes\<close> for
  every user and stores nothing, and \<^verbatim>\<open>verifyEmail\<close> throws at
  \<^verbatim>\<open>crypto.createHash\<close> for every token, with the store unchanged. The error is a
  \<^verbatim>\<open>TypeError\<close> on a runtime with a global \<^verbatim>\<open>crypto\<close> and a \<^verbatim>\<open>ReferenceError\<close>
  otherwise.
\<close>

theorem email_verification_throws:
  "generateEmailVerificationToken (user_model_scope g) L rnd t u
     = Inl (if g then TypeError else ReferenceError)
   \<and> verifyEmail (auth_controller_scope g) L ev tok s
     = (Failed (if g then TypeError else ReferenceError), s)
   \<and> generateEmailVerificationToken (user_model_scope True) sample_lib ''9f2c'' 1000 sample_user
     = Inl TypeError
   \<and> verifyEmail (auth_controller_scope True) sample_lib sample_env ''9f2c'' sample_store
     = (Failed TypeError, sample_store)"
  by (simp add: generateEmailVerificationToken_def verifyEmail_def resolve_crypto_def
      auth_controller_scope_def user_model_scope_def)

section \<open>Middleware\<close>


lemma split_sp_no_space: "CHR '' '' \<notin> set w \<Longrightarrow> split_sp w = [w]"
  by (induction w) (auto split: list.splits)

lemma bearer_token_of_header:
  assumes "CHR '' '' \<notin> set tok"
  shows "bearer_token (Some (''Bearer '' @ tok)) = Some tok"
  using split_sp_no_space [OF assms] by (simp add: bearer_token_def)

text \<open>
  C10. For a request whose \<^verbatim>\<open>Authorization\<close> header is \<^verbatim>\<open>Bearer\<close>, a space and an
  access token that verifies to the id of an existing, deactivated user, \<^verbatim>\<open>protect\<close>
  hands the error \<^verbatim>\<open>User account is deactivated\<close> with status 401 to \<^verbatim>\<open>next\<close>, while
  \<^verbatim>\<open>optionalAuth\<close> sets \<^verbatim>\<open>req.user\<close> to that user (without the password field, and
  still deactivated) and calls \<^verbatim>\<open>next\<close> with no error. Neither changes the store.
\<close>

theorem deactivated_user_protect_optionalAuth:
  assumes "tok \<noteq> []" and "CHR '' '' \<notin> set tok"
    and "authorization req = Some (''Bearer '' @ tok)"
    and "jwt_verify L tok (JWT_SECRET cfg) = Some decoded"
    and "findById s (payload_id decoded) = Some u"
    and "\<not> isActive u"
  shows "protect L cfg ev req s
           = (NextError (ErrorResponse ''User account is deactivated'' 401),
              req\<lparr>req_user := Some (select_no_password u)\<rparr>, s)
         \<and> optionalAuth L cfg req s
           = (Next, req\<lparr>req_user := Some (select_no_password u)\<rparr>, s)
         \<and> \<not> isActive (select_no_password u)"
  using assms bearer_token_of_header [OF assms(2)]
  by (simp add: protect_def optionalAuth_def select_no_password_def)

text \<open>The theorem for the access token \<^verbatim>\<open>a7\<close> and the sample user, deactivated.\<close>

theorem deactivated_user_protect_optionalAuth_witness:
  "''a7'' \<noteq> [] \<and> CHR '' '' \<notin> set ''a7''
   \<and> jwt_verify sample_lib ''a7'' (JWT_SECRET sample_config) = Some (AccessClaims 7 ''a@x.com'' ''user'')
   \<and> findById (sample_store\<lparr>users := [sample_user\<lparr>isActive := False\<rparr>]\<rparr>) 7
       = Some (sample_user\<lparr>isActive := False\<rparr>)
   \<and> \<not> isActive (sample_user\<lparr>isActive := False\<rparr>)
   \<and> protect sample_lib sample_config sample_env
        \<lparr>authorization = Some ''Bearer a7'', req_user = None\<rparr>
        (sample_store\<lparr>users := [sample_user\<lparr>isActive := False\<rparr>]\<rparr>)
       = (NextError (ErrorResponse ''User account is deactivated'' 401),
          \<lparr>authorization = Some ''Bearer a7'',
            req_user = Some (select_no_password (sample_user\<lparr>isActive := False\<rparr>))\<rparr>,
          sample_store\<lparr>users := [sample_user\<lparr>isActive := False\<rparr>]\<rparr>)
   \<and> optionalAuth sample_lib sample_config
        \<lparr>authorization = Some ''Bearer a7'', req_user = None\<rparr>
        (sample_store\<lparr>users := [sample_user\<lparr>isActive := False\<rparr>]\<rparr>)
       = (Next,
          \<lparr>authorization = Some ''Bearer a7'',
            req_user = Some (select_no_password (sample_user\<lparr>isActive := False\<rparr>))\<rparr>,
          sample_store\<lparr>users := [sample_user\<lparr>isActive := False\<rparr>]\<rparr>)"
proof -
  let ?s = "sample_store\<lparr>users := [sample_user\<lparr>isActive := False\<rparr>]\<rparr>"
  let ?req = "\<lparr>authorization = Some ''Bearer a7'', req_user = None\<rparr>"
  have a: "''a7'' \<noteq> []" "CHR '' '' \<notin> set ''a7''"
    "authorization ?req = Some (''Bearer '' @ ''a7'')"
    "jwt_verify sample_lib ''a7'' (JWT_SECRET sample_config) = Some (AccessClaims 7 ''a@x.com'' ''user'')"
    "findById ?s (payload_id (AccessClaims 7 ''a@x.com'' ''user'')) = Some (sample_user\<lparr>isActive := False\<rparr>)"
    "\<not> isActive (sample_user\<lparr>isActive := False\<rparr>)"
    by (simp_all add: sample_lib_def sample_config_def findById_def sample_user_def)
  show ?thesis
    using deactivated_user_protect_optionalAuth [OF a, of sample_env] a by simp
qed

end
